theory Spec2Isabelle
  imports Main "HOL-Library.Monad_Syntax" "HOL-Library.AList"
begin

section \<open>Syntax trees as JavaScript values\<close>

text \<open>
  \<^verbatim>\<open>scripts/snap-diff/rewrite.js\<close> works on the tree that the parser returns: plain
  JavaScript objects whose \<^verbatim>\<open>type\<close> property names the node kind. The rules read and
  assign properties by name and never look at a class, so the tree is modelled as it is
  at run time: a value is a primitive, an array, or an object, and an object is the list
  of its own properties in insertion order. A \<open>char\<close> stands for one code unit of a
  JavaScript string; every property name and constant of the source is ASCII. Source
  positions (\<^verbatim>\<open>start\<close>, \<^verbatim>\<open>end\<close>) are ordinary numeric properties and are not read
  by any rule.
\<close>

datatype jsval =
    Undefined
  | Null
  | Bool bool
  | Num int
  | Str string
  | Arr "jsval list"
  | Obj "(string \<times> jsval) list"

text \<open>
  A thrown \<^verbatim>\<open>TypeError\<close> is the value \<open>None\<close>. Reading a property of
  \<^verbatim>\<open>undefined\<close> or \<^verbatim>\<open>null\<close> throws; reading a property that a value does not have
  gives \<^verbatim>\<open>undefined\<close>. Of the properties the source reads (\<^verbatim>\<open>type\<close>, \<^verbatim>\<open>source\<close>,
  \<^verbatim>\<open>value\<close>, \<^verbatim>\<open>directive\<close>, \<^verbatim>\<open>callee\<close>, \<^verbatim>\<open>object\<close>, \<^verbatim>\<open>property\<close>, \<^verbatim>\<open>name\<close>,
  \<^verbatim>\<open>arguments\<close>, \<^verbatim>\<open>length\<close>) only \<^verbatim>\<open>length\<close> exists on arrays and strings.
\<close>

definition field :: "(string \<times> jsval) list \<Rightarrow> string \<Rightarrow> jsval" where
  "field fs k = (case map_of fs k of None \<Rightarrow> Undefined | Some v \<Rightarrow> v)"

fun get :: "jsval \<Rightarrow> string \<Rightarrow> jsval option" where
  "get Undefined k = None"
| "get Null k = None"
| "get (Obj fs) k = Some (field fs k)"
| "get (Arr xs) k = Some (if k = ''length'' then Num (int (length xs)) else Undefined)"
| "get (Str s) k = Some (if k = ''length'' then Num (int (length s)) else Undefined)"
| "get (Bool b) k = Some Undefined"
| "get (Num n) k = Some Undefined"

text \<open>Optional chaining \<^verbatim>\<open>v?.k\<close>: \<^verbatim>\<open>undefined\<close> where \<^verbatim>\<open>v.k\<close> would throw.\<close>

definition get_opt :: "jsval \<Rightarrow> string \<Rightarrow> jsval" where
  "get_opt v k = (case get v k of None \<Rightarrow> Undefined | Some x \<Rightarrow> x)"

text \<open>
  The assignment \<^verbatim>\<open>v.k = x\<close>. On an object it replaces the property in place, or
  appends it. The module is strict code, so assigning to a property of a primitive
  throws, as it does on \<^verbatim>\<open>undefined\<close> and \<^verbatim>\<open>null\<close>. The rules assign only to values
  on which they have just read a string-valued \<^verbatim>\<open>type\<close> or \<^verbatim>\<open>name\<close>, which are objects;
  an array target does not arise.
\<close>

fun put :: "jsval \<Rightarrow> string \<Rightarrow> jsval \<Rightarrow> jsval option" where
  "put (Obj fs) k x = Some (Obj (AList.update k x fs))"
| "put v k x = None"

text \<open>
  \<^verbatim>\<open>args.splice(1, 1)\<close> removes the element at index 1 of an array; on anything else
  \<^verbatim>\<open>splice\<close> is not a function and the call throws.
\<close>

fun splice_1_1 :: "jsval \<Rightarrow> jsval option" where
  "splice_1_1 (Arr xs) = Some (Arr (take 1 xs @ drop 2 xs))"
| "splice_1_1 v = None"

section \<open>The three rewrite rules\<close>

definition sourceList :: "jsval list" where
  "sourceList = [Str ''assert'', Str ''node:assert'']"

definition assertProperties :: "jsval list" where
  "assertProperties = [Str ''equal'', Str ''strictEqual'', Str ''deepEqual'']"

text \<open>
  \<^verbatim>\<open>xs.includes(v)\<close> compares with SameValueZero; both lists hold strings only, so it is
  membership.
\<close>

definition includes_js :: "jsval list \<Rightarrow> jsval \<Rightarrow> bool" where
  "includes_js xs v = (v \<in> set xs)"

text \<open>
  Each rule mutates the node it is given. The model returns the node after the
  mutation; a nested assignment such as \<^verbatim>\<open>callee.object.name = 'console'\<close> changes the
  object that \<^verbatim>\<open>node.callee.object\<close> refers to, so the changed object is stored back
  under the property it was read from.
\<close>

definition ImportDeclaration :: "jsval \<Rightarrow> jsval option" where
  "ImportDeclaration node = do {
     source \<leftarrow> get node ''source'';
     v \<leftarrow> get source ''value'';
     if includes_js sourceList v
     then put node ''type'' (Str ''EmptyStatement'')
     else Some node
   }"

definition ExpressionStatement :: "jsval \<Rightarrow> jsval option" where
  "ExpressionStatement node = do {
     directive \<leftarrow> get node ''directive'';
     if directive = Str ''use strict''
     then put node ''type'' (Str ''EmptyStatement'')
     else Some node
   }"

definition CallExpression :: "jsval \<Rightarrow> jsval option" where
  "CallExpression node = do {
     callee \<leftarrow> get node ''callee'';
     ctype \<leftarrow> get callee ''type'';
     if ctype = Str ''MemberExpression''
     then do {
       object \<leftarrow> get callee ''object'';
       if get_opt object ''name'' = Str ''assert''
       then do {
         property \<leftarrow> get callee ''property'';
         if includes_js assertProperties (get_opt property ''name'')
         then do {
           args \<leftarrow> get node ''arguments'';
           len \<leftarrow> get args ''length'';
           if len = Num 2
           then do {
             object' \<leftarrow> put object ''name'' (Str ''console'');
             callee1 \<leftarrow> put callee ''object'' object';
             property' \<leftarrow> put property ''name'' (Str ''log'');
             callee2 \<leftarrow> put callee1 ''property'' property';
             args' \<leftarrow> splice_1_1 args;
             node1 \<leftarrow> put node ''callee'' callee2;
             put node1 ''arguments'' args'
           }
           else Some node
         }
         else Some node
       }
       else Some node
     }
     else Some node
   }"

section \<open>The traversal\<close>

text \<open>
  The object of visitor functions that the source passes to \<^verbatim>\<open>walk.simple\<close>, looked up
  by node type: the three rules, and nothing for any other type.
\<close>

definition visitors :: "jsval \<Rightarrow> jsval \<Rightarrow> jsval option" where
  "visitors type node =
     (if type = Str ''ImportDeclaration'' then ImportDeclaration node
      else if type = Str ''ExpressionStatement'' then ExpressionStatement node
      else if type = Str ''CallExpression'' then CallExpression node
      else Some node)"

text \<open>
  Modelled from the spec: \<^verbatim>\<open>walk.simple\<close> is a function of the walker library, which
  is not part of the repository. The specification has it make a single full traversal
  in which a rule is dispatched by node kind and invoked once per matching node. The
  library reads \<^verbatim>\<open>node.type\<close>, walks the children of the node, and then calls the
  visitor registered for that type, so a rule sees its node after the rules have run on
  everything below it. The model walks every property value and every array element,
  which reaches every node of a tree; a value without a \<^verbatim>\<open>type\<close> is returned as it
  is.
\<close>

fun simple :: "jsval \<Rightarrow> jsval option"
  and simple_list :: "jsval list \<Rightarrow> jsval list option"
  and simple_fields :: "(string \<times> jsval) list \<Rightarrow> (string \<times> jsval) list option" where
  "simple (Obj fs) = do { fs' \<leftarrow> simple_fields fs; visitors (field fs ''type'') (Obj fs') }"
| "simple (Arr xs) = do { xs' \<leftarrow> simple_list xs; Some (Arr xs') }"
| "simple Undefined = Some Undefined"
| "simple Null = Some Null"
| "simple (Bool b) = Some (Bool b)"
| "simple (Num n) = Some (Num n)"
| "simple (Str s) = Some (Str s)"
| "simple_list [] = Some []"
| "simple_list (x # xs) = do { x' \<leftarrow> simple x; xs' \<leftarrow> simple_list xs; Some (x' # xs') }"
| "simple_fields [] = Some []"
| "simple_fields ((k, v) # fs) =
     do { v' \<leftarrow> simple v; fs' \<leftarrow> simple_fields fs; Some ((k, v') # fs') }"

section \<open>Line filter and entry points\<close>

text \<open>\<^verbatim>\<open>s.split('\n')\<close>: the pieces between newlines; the empty string has one piece.\<close>

fun split_nl :: "string \<Rightarrow> string list" where
  "split_nl [] = [[]]"
| "split_nl (c # cs) =
     (if c = CHR ''\<newline>'' then [] # split_nl cs
      else (case split_nl cs of [] \<Rightarrow> [[c]] | l # ls \<Rightarrow> (c # l) # ls))"

text \<open>\<^verbatim>\<open>ls.join('\n')\<close>: the empty array joins to the empty string.\<close>

fun join_nl :: "string list \<Rightarrow> string" where
  "join_nl [] = []"
| "join_nl [l] = l"
| "join_nl (l # ls) = l @ CHR ''\<newline>'' # join_nl ls"

definition normalize_output :: "string \<Rightarrow> string" where
  "normalize_output generated = join_nl (filter (\<lambda>line. line \<noteq> '';'') (split_nl generated))"

text \<open>
  The parser and the code generator are libraries outside the repository and are
  parameters here. Each returns its result or the error it throws: \<open>parse\<close> the tree
  or a syntax error, \<open>generate\<close> the text or whatever the generator throws on a tree
  it cannot print. The source catches nothing, so an error thrown by the parser, by a
  rule (\<open>TypeError\<close>) or by the generator leaves the entry point as it is.
\<close>

datatype ('e, 'g) failure = ParseError 'e | TypeError | GenerateError 'g

definition rewriteRolldown ::
  "(string \<Rightarrow> 'e + jsval) \<Rightarrow> (jsval \<Rightarrow> 'g + string) \<Rightarrow> string \<Rightarrow>
     ('e, 'g) failure + string" where
  "rewriteRolldown parse generate code =
     (case parse code of
        Inl e \<Rightarrow> Inl (ParseError e)
      | Inr ast \<Rightarrow>
          (case simple ast of
             None \<Rightarrow> Inl TypeError
           | Some ast' \<Rightarrow>
               (case generate ast' of
                  Inl g \<Rightarrow> Inl (GenerateError g)
                | Inr generated \<Rightarrow> Inr (normalize_output generated))))"

definition rewriteEsbuild ::
  "(string \<Rightarrow> 'e + jsval) \<Rightarrow> (jsval \<Rightarrow> 'g + string) \<Rightarrow> string \<Rightarrow>
     ('e, 'g) failure + string" where
  "rewriteEsbuild parse generate code =
     (case parse code of
        Inl e \<Rightarrow> Inl (ParseError e)
      | Inr ast \<Rightarrow>
          (case generate ast of
             Inl g \<Rightarrow> Inl (GenerateError g)
           | Inr generated \<Rightarrow> Inr generated))"

section \<open>Trees the parser returns\<close>

text \<open>
  The parser produces ESTree nodes. Two facts about their shape matter to the rules: a
  \<^verbatim>\<open>CallExpression\<close> has a node as \<^verbatim>\<open>callee\<close> and an array as \<^verbatim>\<open>arguments\<close>, and an
  \<^verbatim>\<open>ImportDeclaration\<close> has a node as \<^verbatim>\<open>source\<close>. \<open>estree_ok\<close> asks this of every
  object in a tree and nothing more, so it holds of every tree of a valid parse.
\<close>

definition is_Obj :: "jsval \<Rightarrow> bool" where
  "is_Obj v = (case v of Obj fs \<Rightarrow> True | _ \<Rightarrow> False)"

definition is_Arr :: "jsval \<Rightarrow> bool" where
  "is_Arr v = (case v of Arr xs \<Rightarrow> True | _ \<Rightarrow> False)"

definition node_ok :: "(string \<times> jsval) list \<Rightarrow> bool" where
  "node_ok fs =
     ((field fs ''type'' = Str ''CallExpression'' \<longrightarrow>
         is_Obj (field fs ''callee'') \<and> is_Arr (field fs ''arguments'')) \<and>
      (field fs ''type'' = Str ''ImportDeclaration'' \<longrightarrow> is_Obj (field fs ''source'')))"

fun estree_ok :: "jsval \<Rightarrow> bool"
  and estree_ok_list :: "jsval list \<Rightarrow> bool"
  and estree_ok_fields :: "(string \<times> jsval) list \<Rightarrow> bool" where
  "estree_ok (Obj fs) = (node_ok fs \<and> estree_ok_fields fs)"
| "estree_ok (Arr xs) = estree_ok_list xs"
| "estree_ok Undefined = True"
| "estree_ok Null = True"
| "estree_ok (Bool b) = True"
| "estree_ok (Num n) = True"
| "estree_ok (Str s) = True"
| "estree_ok_list [] = True"
| "estree_ok_list (x # xs) = (estree_ok x \<and> estree_ok_list xs)"
| "estree_ok_fields [] = True"
| "estree_ok_fields ((k, v) # fs) = (estree_ok v \<and> estree_ok_fields fs)"



text \<open>
  The node shapes used in the examples, with the properties the parser gives them
  apart from the source positions. A statement of the directive prologue carries
  \<^verbatim>\<open>directive\<close>, the text between its quotes; every other expression statement has no
  such property.
\<close>

definition Identifier :: "string \<Rightarrow> jsval" where
  "Identifier n = Obj [(''type'', Str ''Identifier''), (''name'', Str n)]"

definition Literal :: "jsval \<Rightarrow> string \<Rightarrow> jsval" where
  "Literal v raw = Obj [(''type'', Str ''Literal''), (''value'', v), (''raw'', Str raw)]"

definition MemberExpression :: "jsval \<Rightarrow> jsval \<Rightarrow> jsval" where
  "MemberExpression object property =
     Obj [(''type'', Str ''MemberExpression''), (''object'', object), (''property'', property),
          (''computed'', Bool False), (''optional'', Bool False)]"

definition Call :: "jsval \<Rightarrow> jsval list \<Rightarrow> jsval" where
  "Call callee args =
     Obj [(''type'', Str ''CallExpression''), (''callee'', callee), (''arguments'', Arr args),
          (''optional'', Bool False)]"

definition ExprStmt :: "jsval \<Rightarrow> jsval" where
  "ExprStmt e = Obj [(''type'', Str ''ExpressionStatement''), (''expression'', e)]"

definition Directive :: "jsval \<Rightarrow> string \<Rightarrow> jsval" where
  "Directive e d =
     Obj [(''type'', Str ''ExpressionStatement''), (''expression'', e), (''directive'', Str d)]"

definition Import :: "jsval list \<Rightarrow> jsval \<Rightarrow> jsval" where
  "Import specifiers source =
     Obj [(''type'', Str ''ImportDeclaration''), (''specifiers'', Arr specifiers),
          (''source'', source)]"

definition ImportDefaultSpecifier :: "string \<Rightarrow> jsval" where
  "ImportDefaultSpecifier n =
     Obj [(''type'', Str ''ImportDefaultSpecifier''), (''local'', Identifier n)]"

definition Program :: "jsval list \<Rightarrow> jsval" where
  "Program body =
     Obj [(''type'', Str ''Program''), (''body'', Arr body), (''sourceType'', Str ''module'')]"

text \<open>The statements of a program that are not empty statements.\<close>

definition live_statements :: "jsval \<Rightarrow> jsval list" where
  "live_statements prog =
     (case get_opt prog ''body'' of
        Arr ss \<Rightarrow> filter (\<lambda>s. get_opt s ''type'' \<noteq> Str ''EmptyStatement'') ss
      | _ \<Rightarrow> [])"

text \<open>
  The end-to-end example of the specification and its tree. The string statement
  follows an import, so it is outside the directive prologue and has no
  \<^verbatim>\<open>directive\<close> property.
\<close>

definition example_input :: string where
  \<open>example_input =
     ''import assert from "assert";\<newline>"use strict";\<newline>assert.equal(compute(), 42);''\<close>

definition example_ast :: jsval where
  \<open>example_ast =
     Program
       [Import [ImportDefaultSpecifier ''assert''] (Literal (Str ''assert'') ''"assert"''),
        ExprStmt (Literal (Str ''use strict'') ''"use strict"''),
        ExprStmt (Call (MemberExpression (Identifier ''assert'') (Identifier ''equal''))
                    [Call (Identifier ''compute'') [], Literal (Num 42) ''42''])]\<close>

definition example_rewritten :: jsval where
  \<open>example_rewritten =
     Program
       [Obj [(''type'', Str ''EmptyStatement''),
             (''specifiers'', Arr [ImportDefaultSpecifier ''assert'']),
             (''source'', Literal (Str ''assert'') ''"assert"'')],
        ExprStmt (Literal (Str ''use strict'') ''"use strict"''),
        ExprStmt (Call (MemberExpression (Identifier ''console'') (Identifier ''log''))
                    [Call (Identifier ''compute'') []])]\<close>

text \<open>
  A module with a class field, \<^verbatim>\<open>class A { x = 1 }\<close>, and its tree. It is valid under
  the grammar the parser is given, and no rule matches any of its nodes.
\<close>

definition class_field_input :: string where
  "class_field_input = ''class A { x = 1 }''"

definition class_field_ast :: jsval where
  "class_field_ast =
     Program
       [Obj [(''type'', Str ''ClassDeclaration''), (''id'', Identifier ''A''),
             (''superClass'', Null),
             (''body'',
              Obj [(''type'', Str ''ClassBody''),
                   (''body'',
                    Arr [Obj [(''type'', Str ''PropertyDefinition''), (''static'', Bool False),
                              (''computed'', Bool False), (''key'', Identifier ''x''),
                              (''value'', Literal (Num 1) ''1'')]])])]]"

text \<open>
  Stand-ins for the two libraries on the examples. The parser knows the two example
  inputs and rejects everything else. The generator prints the example tree and the
  rewritten example tree the way the code generator prints them (one statement per
  line, single quotes, an empty statement as a lone semicolon), and throws on the class
  field, a node kind the code generator has no printer for.
\<close>

definition example_parse :: "string \<Rightarrow> string + jsval" where
  "example_parse code =
     (if code = example_input then Inr example_ast
      else if code = class_field_input then Inr class_field_ast
      else Inl ''SyntaxError'')"

definition example_generate :: "jsval \<Rightarrow> string + string" where
  \<open>example_generate t =
     (if t = example_ast
      then Inr ''import assert from 'assert';\<newline>'use strict';\<newline>assert.equal(compute(), 42);''
      else if t = example_rewritten
      then Inr '';\<newline>'use strict';\<newline>console.log(compute());''
      else Inl ''TypeError'')\<close>

section \<open>The line filter as the specification words it\<close>

text \<open>
  The specification removes every line whose trimmed content is \<^verbatim>\<open>;\<close>. This second
  definition follows those words, with the white space that \<^verbatim>\<open>trim\<close> removes, to be
  compared with \<open>normalize_output\<close>.
\<close>

definition is_space :: "char \<Rightarrow> bool" where
  "is_space c = (c \<in> set [CHR 0x09, CHR 0x0A, CHR 0x0B, CHR 0x0C, CHR 0x0D, CHR 0x20, CHR 0xA0])"

definition spec_trim :: "string \<Rightarrow> string" where
  "spec_trim s = rev (dropWhile is_space (rev (dropWhile is_space s)))"

definition spec_normalize_output :: "string \<Rightarrow> string" where
  "spec_normalize_output generated =
     join_nl (filter (\<lambda>line. spec_trim line \<noteq> '';'') (split_nl generated))"

section \<open>Properties of property access\<close>

lemma field_update: "field (AList.update k v fs) k' = (if k' = k then v else field fs k')"
  by (simp add: field_def update_conv')

lemma field_Cons: "field ((k, v) # fs) k' = (if k' = k then v else field fs k')"
  by (simp add: field_def)

lemma get_opt_Str_is_Obj: "get_opt v k = Str s \<Longrightarrow> k \<noteq> ''length'' \<Longrightarrow> \<exists>fs. v = Obj fs \<and> field fs k = Str s"
  by (cases v) (auto simp: get_opt_def split: if_splits)

lemma includes_assertProperties:
  "includes_js assertProperties v \<longleftrightarrow> v = Str ''equal'' \<or> v = Str ''strictEqual'' \<or> v = Str ''deepEqual''"
  by (auto simp: includes_js_def assertProperties_def)

section \<open>The traversal returns on every tree of a valid parse\<close>

lemma ImportDeclaration_Obj:
  "ImportDeclaration (Obj fs) = Some n \<Longrightarrow> \<exists>fs'. n = Obj fs'"
  by (auto simp: ImportDeclaration_def Option.bind_eq_Some_conv split: if_splits)

lemma ExpressionStatement_Obj:
  "ExpressionStatement (Obj fs) = Some n \<Longrightarrow> \<exists>fs'. n = Obj fs'"
  by (auto simp: ExpressionStatement_def split: if_splits)

lemma put_Some: "put v k x = Some n \<longleftrightarrow> (\<exists>fs. v = Obj fs \<and> n = Obj (AList.update k x fs))"
  by (cases v) auto

lemma CallExpression_Obj:
  "CallExpression (Obj fs) = Some n \<Longrightarrow> \<exists>fs'. n = Obj fs'"
  by (auto simp: CallExpression_def Option.bind_eq_Some_conv put_Some split: if_splits)

lemma visitors_Obj: "visitors t (Obj fs) = Some n \<Longrightarrow> \<exists>fs'. n = Obj fs'"
  by (auto simp: visitors_def dest: ImportDeclaration_Obj ExpressionStatement_Obj CallExpression_Obj
      split: if_splits)

lemma simple_Obj: "simple (Obj fs) = Some n \<Longrightarrow> \<exists>fs'. n = Obj fs'"
  by (auto simp: Option.bind_eq_Some_conv dest: visitors_Obj)

lemma simple_Arr: "simple (Arr xs) = Some n \<Longrightarrow> \<exists>xs'. n = Arr xs' \<and> simple_list xs = Some xs'"
  by (auto simp: Option.bind_eq_Some_conv)

lemma simple_Str: "simple (Str s) = Some n \<longleftrightarrow> n = Str s"
  by auto

lemma simple_is_Obj: "simple v = Some v' \<Longrightarrow> is_Obj v \<Longrightarrow> is_Obj v'"
proof -
  assume s: "simple v = Some v'" and "is_Obj v"
  from this(2) obtain fs where "v = Obj fs" by (cases v) (simp_all add: is_Obj_def)
  with s simple_Obj obtain fs' where "v' = Obj fs'" by blast
  then show ?thesis by (simp add: is_Obj_def)
qed

lemma simple_is_Arr: "simple v = Some v' \<Longrightarrow> is_Arr v \<Longrightarrow> is_Arr v'"
proof -
  assume s: "simple v = Some v'" and "is_Arr v"
  from this(2) obtain xs where "v = Arr xs" by (cases v) (simp_all add: is_Arr_def)
  with s simple_Arr obtain xs' where "v' = Arr xs'" by blast
  then show ?thesis by (simp add: is_Arr_def)
qed

lemma simple_fields_field:
  "simple_fields fs = Some fs' \<Longrightarrow> simple (field fs k) = Some (field fs' k)"
proof (induction fs arbitrary: fs')
  case Nil
  then show ?case by (simp add: field_def)
next
  case (Cons p fs)
  obtain k0 v where p: "p = (k0, v)" by (cases p)
  from Cons.prems obtain v' fs0 where v': "simple v = Some v'" and fs0: "simple_fields fs = Some fs0"
    and fs': "fs' = (k0, v') # fs0"
    by (auto simp: p Option.bind_eq_Some_conv)
  show ?case using Cons.IH [OF fs0] v' by (simp add: p fs' field_Cons)
qed

lemma simple_fields_Str:
  "simple_fields fs = Some fs' \<Longrightarrow> field fs' k = Str s \<longleftrightarrow> field fs k = Str s"
  using simple_fields_field [of fs fs' k]
  by (cases "field fs k") (auto simp: Option.bind_eq_Some_conv dest: visitors_Obj)

lemma simple_fields_node_ok:
  assumes "simple_fields fs = Some fs'" and "node_ok fs"
  shows "node_ok fs'"
proof -
  have o: "is_Obj (field fs k) \<Longrightarrow> is_Obj (field fs' k)" for k
    using simple_fields_field [OF assms(1), of k] simple_is_Obj by blast
  have a: "is_Arr (field fs k) \<Longrightarrow> is_Arr (field fs' k)" for k
    using simple_fields_field [OF assms(1), of k] simple_is_Arr by blast
  show ?thesis
    using assms(2) o a unfolding node_ok_def simple_fields_Str [OF assms(1)] by blast
qed

lemma CallExpression_total:
  assumes "is_Obj (field fs ''callee'')" and "is_Arr (field fs ''arguments'')"
  shows "\<exists>n. CallExpression (Obj fs) = Some n"
proof -
  obtain cfs where c: "field fs ''callee'' = Obj cfs"
    using assms(1) by (auto simp: is_Obj_def split: jsval.splits)
  obtain xs where a: "field fs ''arguments'' = Arr xs"
    using assms(2) by (auto simp: is_Arr_def split: jsval.splits)
  show ?thesis
  proof (cases "field cfs ''type'' = Str ''MemberExpression'' \<and>
      get_opt (field cfs ''object'') ''name'' = Str ''assert'' \<and>
      includes_js assertProperties (get_opt (field cfs ''property'') ''name'')")
    case False
    then show ?thesis
      by (cases "field cfs ''object''"; cases "field cfs ''property''")
         (auto simp: CallExpression_def c a get_opt_def)
  next
    case True
    then obtain ofs pfs where "field cfs ''object'' = Obj ofs" "field cfs ''property'' = Obj pfs"
      by (auto simp: includes_assertProperties dest!: get_opt_Str_is_Obj)
    then show ?thesis using True
      by (simp add: CallExpression_def c a get_opt_def)
  qed
qed

lemma ImportDeclaration_total:
  assumes "is_Obj (field fs ''source'')"
  shows "\<exists>n. ImportDeclaration (Obj fs) = Some n"
  using assms by (auto simp: ImportDeclaration_def is_Obj_def split: jsval.splits)

lemma ExpressionStatement_total: "\<exists>n. ExpressionStatement (Obj fs) = Some n"
  by (simp add: ExpressionStatement_def)

lemma visitors_total:
  assumes "node_ok fs"
  shows "\<exists>n. visitors (field fs ''type'') (Obj fs) = Some n"
  using assms CallExpression_total [of fs] ImportDeclaration_total [of fs] ExpressionStatement_total [of fs]
  by (auto simp: visitors_def node_ok_def)

lemma simple_total_aux:
  "(estree_ok v \<longrightarrow> (\<exists>v'. simple v = Some v'))"
  "(estree_ok_list xs \<longrightarrow> (\<exists>xs'. simple_list xs = Some xs'))"
  "(estree_ok_fields fs \<longrightarrow> (\<exists>fs'. simple_fields fs = Some fs'))"
proof (induction v and xs and fs rule: simple_simple_list_simple_fields.induct)
  case (1 fs)
  show ?case
  proof
    assume ok: "estree_ok (Obj fs)"
    then obtain fs' where fs': "simple_fields fs = Some fs'" using 1 by auto
    have "node_ok fs'" using ok simple_fields_node_ok [OF fs'] by simp
    moreover have "field fs' ''type'' = field fs ''type'' \<or> (\<forall>s. field fs ''type'' \<noteq> Str s)"
      using simple_fields_Str [OF fs'] by (cases "field fs ''type''") auto
    ultimately show "\<exists>v'. simple (Obj fs) = Some v'"
      using visitors_total [of fs'] fs' by (auto simp: visitors_def)
  qed
qed auto

lemma simple_total: "estree_ok v \<Longrightarrow> \<exists>v'. simple v = Some v'"
  using simple_total_aux(1) by blast

section \<open>No import of the assert module survives the traversal\<close>
















section \<open>Splitting and joining lines\<close>

lemma split_nl_not_Nil: "split_nl s \<noteq> []"
  by (induction s) (auto split: list.splits)

lemma split_nl_no_newline: "l \<in> set (split_nl s) \<Longrightarrow> CHR ''\<newline>'' \<notin> set l"
  by (induction s arbitrary: l) (auto split: if_splits list.splits)

lemma split_nl_line: "CHR ''\<newline>'' \<notin> set l \<Longrightarrow> split_nl l = [l]"
  by (induction l) auto

lemma split_nl_append:
  "CHR ''\<newline>'' \<notin> set l \<Longrightarrow> split_nl (l @ CHR ''\<newline>'' # s) = l # split_nl s"
  by (induction l) auto

lemma join_nl_Cons: "ls \<noteq> [] \<Longrightarrow> join_nl (l # ls) = l @ CHR ''\<newline>'' # join_nl ls"
  by (cases ls) auto

lemma join_split_nl: "join_nl (split_nl s) = s"
proof (induction s)
  case Nil
  show ?case by simp
next
  case (Cons c s)
  show ?case
  proof (cases "c = CHR ''\<newline>''")
    case True
    then show ?thesis using Cons by (simp add: join_nl_Cons split_nl_not_Nil)
  next
    case False
    obtain l ls where l: "split_nl s = l # ls"
      using split_nl_not_Nil by (cases "split_nl s") auto
    have "join_nl ((c # l) # ls) = c # join_nl (l # ls)"
      by (cases ls) auto
    then show ?thesis using Cons False l by simp
  qed
qed

lemma split_join_nl:
  "ls \<noteq> [] \<Longrightarrow> \<forall>l \<in> set ls. CHR ''\<newline>'' \<notin> set l \<Longrightarrow> split_nl (join_nl ls) = ls"
proof (induction ls rule: join_nl.induct)
  case 1
  then show ?case by simp
next
  case (2 l)
  then show ?case by (simp add: split_nl_line)
next
  case (3 l v va)
  then show ?case by (simp add: split_nl_append)
qed

section \<open>The rules at a node\<close>

lemma get_Str_is_Obj: "get v k = Some (Str s) \<Longrightarrow> k \<noteq> ''length'' \<Longrightarrow> \<exists>fs. v = Obj fs"
  by (cases v) (auto split: if_splits)

lemma get_Obj_is_Obj: "get v k = Some (Obj fs) \<Longrightarrow> \<exists>gs. v = Obj gs"
  by (cases v) (auto split: if_splits)

lemma CallExpression_match:
  assumes callee: "field fs ''callee'' = Obj cfs"
    and ctype: "field cfs ''type'' = Str ''MemberExpression''"
    and object: "field cfs ''object'' = Obj ofs"
    and oname: "field ofs ''name'' = Str ''assert''"
    and property: "field cfs ''property'' = Obj pfs"
    and pname: "includes_js assertProperties (field pfs ''name'')"
    and args: "field fs ''arguments'' = Arr [a, b]"
  shows "CallExpression (Obj fs) =
    Some (Obj (AList.update ''arguments'' (Arr [a])
      (AList.update ''callee''
         (Obj (AList.update ''property'' (Obj (AList.update ''name'' (Str ''log'') pfs))
            (AList.update ''object'' (Obj (AList.update ''name'' (Str ''console'') ofs)) cfs)))
         fs)))"
  using assms by (simp add: CallExpression_def get_opt_def)

lemmas node_defs = Program_def Import_def ImportDefaultSpecifier_def Identifier_def Literal_def
  ExprStmt_def Directive_def Call_def MemberExpression_def

lemma rewriteRolldown_Inr:
  "parse code = Inr ast \<Longrightarrow> simple ast = Some ast' \<Longrightarrow>
   rewriteRolldown parse generate code = map_sum GenerateError normalize_output (generate ast')"
  by (cases "generate ast'") (simp_all add: rewriteRolldown_def)

lemma rewriteEsbuild_Inr:
  "parse code = Inr ast \<Longrightarrow>
   rewriteEsbuild parse generate code = map_sum GenerateError (\<lambda>generated. generated) (generate ast)"
  by (cases "generate ast") (simp_all add: rewriteEsbuild_def)

lemma includes_sourceList:
  "includes_js sourceList v \<longleftrightarrow> v = Str ''assert'' \<or> v = Str ''node:assert''"
  by (auto simp: includes_js_def sourceList_def)

lemma estree_ok_example: "estree_ok example_ast"
  by (simp add: example_ast_def node_defs node_ok_def field_def is_Obj_def is_Arr_def)

lemma simple_example: "simple example_ast = Some example_rewritten"
  by (simp add: example_ast_def example_rewritten_def node_defs visitors_def
      ImportDeclaration_def ExpressionStatement_def CallExpression_def field_def get_opt_def
      includes_js_def sourceList_def assertProperties_def)

lemma live_example:
  \<open>live_statements example_rewritten =
     [ExprStmt (Literal (Str ''use strict'') ''"use strict"''),
      ExprStmt (Call (MemberExpression (Identifier ''console'') (Identifier ''log''))
                  [Call (Identifier ''compute'') []])]\<close>
  by (simp add: live_statements_def example_rewritten_def node_defs get_opt_def field_def)

section \<open>The traversal on the node shapes of the parser\<close>

lemma simple_list_append:
  "simple_list (xs @ ys) =
     do { xs' \<leftarrow> simple_list xs; ys' \<leftarrow> simple_list ys; Some (xs' @ ys') }"
  by (induction xs) (auto split: bind_splits)

lemma simple_Identifier: "simple (Identifier n) = Some (Identifier n)"
  by (simp add: Identifier_def visitors_def field_def)

lemma simple_Program:
  "simple (Program ss) = do { ss' \<leftarrow> simple_list ss; Some (Program ss') }"
  by (simp add: Program_def visitors_def field_def split: bind_splits)

lemma simple_ExprStmt:
  "simple (ExprStmt e) = do { e' \<leftarrow> simple e; Some (ExprStmt e') }"
  by (simp add: ExprStmt_def visitors_def field_def ExpressionStatement_def split: bind_splits)

lemma simple_Member_ids:
  "simple (MemberExpression (Identifier x) (Identifier m)) =
     Some (MemberExpression (Identifier x) (Identifier m))"
  by (simp add: MemberExpression_def Identifier_def visitors_def field_def)

lemma simple_Call_assert:
  assumes "m \<in> {''equal'', ''strictEqual'', ''deepEqual''}"
    and "simple a = Some a'" and "simple b = Some b'"
  shows "simple (Call (MemberExpression (Identifier ''assert'') (Identifier m)) [a, b]) =
     Some (Call (MemberExpression (Identifier ''console'') (Identifier ''log'')) [a'])"
  using assms
  by (auto simp: Call_def MemberExpression_def Identifier_def visitors_def field_def
      CallExpression_def get_opt_def includes_assertProperties)

lemma simple_Call_other:
  assumes "x \<noteq> ''assert''" and "simple_list args = Some args'"
  shows "simple (Call (MemberExpression (Identifier x) (Identifier m)) args) =
     Some (Call (MemberExpression (Identifier x) (Identifier m)) args')"
  using assms
  by (simp add: Call_def MemberExpression_def Identifier_def visitors_def field_def
      CallExpression_def get_opt_def)

section \<open>The assertion-to-log rule\<close>

text \<open>
  Claim C1. A call node whose callee is a non-computed member access with object name
  \<^verbatim>\<open>assert\<close> and member name \<^verbatim>\<open>equal\<close>, \<^verbatim>\<open>strictEqual\<close> or \<^verbatim>\<open>deepEqual\<close>, and whose
  argument array has exactly two elements, is changed by the rule so that the object
  name is \<^verbatim>\<open>console\<close>, the member name is \<^verbatim>\<open>log\<close> and the argument array holds the
  first argument alone. Every other property of the call, of its callee and of the two
  identifiers is as before. The rule is the visitor for the type \<^verbatim>\<open>CallExpression\<close>,
  and the traversal applies it: walking such a call node of a tree of a valid parse
  gives a call of \<^verbatim>\<open>console.log\<close> whose only argument is the first argument as the
  traversal leaves it.
\<close>

theorem assert_call_rewritten:
  "(get node ''callee'' = Some callee \<and>
    get callee ''type'' = Some (Str ''MemberExpression'') \<and>
    get callee ''computed'' = Some (Bool False) \<and>
    get callee ''object'' = Some object \<and>
    get object ''name'' = Some (Str ''assert'') \<and>
    get callee ''property'' = Some property \<and>
    get property ''name'' = Some (Str m) \<and>
    m \<in> {''equal'', ''strictEqual'', ''deepEqual''} \<and>
    get node ''arguments'' = Some (Arr [a, b]) \<longrightarrow>
      (\<exists>node' callee' object' property'.
         CallExpression node = Some node' \<and>
         visitors (Str ''CallExpression'') node = Some node' \<and>
         get node' ''callee'' = Some callee' \<and>
         get callee' ''object'' = Some object' \<and>
         get object' ''name'' = Some (Str ''console'') \<and>
         get callee' ''property'' = Some property' \<and>
         get property' ''name'' = Some (Str ''log'') \<and>
         get node' ''arguments'' = Some (Arr [a]) \<and>
         (\<forall>k. k \<noteq> ''callee'' \<and> k \<noteq> ''arguments'' \<longrightarrow> get node' k = get node k) \<and>
         (\<forall>k. k \<noteq> ''object'' \<and> k \<noteq> ''property'' \<longrightarrow> get callee' k = get callee k) \<and>
         (\<forall>k. k \<noteq> ''name'' \<longrightarrow>
            get object' k = get object k \<and> get property' k = get property k))) \<and>
   (estree_ok (Obj fs) \<and>
    field fs ''type'' = Str ''CallExpression'' \<and>
    field fs ''callee'' = Obj cfs \<and>
    field cfs ''type'' = Str ''MemberExpression'' \<and>
    field cfs ''computed'' = Bool False \<and>
    field cfs ''object'' = Obj ofs \<and>
    field ofs ''type'' = Str ''Identifier'' \<and>
    field ofs ''name'' = Str ''assert'' \<and>
    field cfs ''property'' = Obj pfs \<and>
    field pfs ''type'' = Str ''Identifier'' \<and>
    field pfs ''name'' = Str m \<and>
    m \<in> {''equal'', ''strictEqual'', ''deepEqual''} \<and>
    field fs ''arguments'' = Arr [a, b] \<longrightarrow>
      (\<exists>node' callee' object' property' a'.
         simple (Obj fs) = Some node' \<and>
         simple a = Some a' \<and>
         get node' ''type'' = Some (Str ''CallExpression'') \<and>
         get node' ''callee'' = Some callee' \<and>
         get callee' ''type'' = Some (Str ''MemberExpression'') \<and>
         get callee' ''object'' = Some object' \<and>
         get object' ''name'' = Some (Str ''console'') \<and>
         get callee' ''property'' = Some property' \<and>
         get property' ''name'' = Some (Str ''log'') \<and>
         get node' ''arguments'' = Some (Arr [a'])))"
proof (intro conjI impI)
  assume h: "get node ''callee'' = Some callee \<and>
    get callee ''type'' = Some (Str ''MemberExpression'') \<and>
    get callee ''computed'' = Some (Bool False) \<and>
    get callee ''object'' = Some object \<and>
    get object ''name'' = Some (Str ''assert'') \<and>
    get callee ''property'' = Some property \<and>
    get property ''name'' = Some (Str m) \<and>
    m \<in> {''equal'', ''strictEqual'', ''deepEqual''} \<and>
    get node ''arguments'' = Some (Arr [a, b])"
  obtain cfs where c: "callee = Obj cfs" using h get_Str_is_Obj by fastforce
  obtain ofs where ob: "object = Obj ofs" using h get_Str_is_Obj by fastforce
  obtain pfs where p: "property = Obj pfs" using h get_Str_is_Obj by fastforce
  obtain fs where n: "node = Obj fs" using h c get_Obj_is_Obj by blast
  have inc: "includes_js assertProperties (field pfs ''name'')"
    using h p by (auto simp: includes_assertProperties)
  have "CallExpression (Obj fs) =
    Some (Obj (AList.update ''arguments'' (Arr [a])
      (AList.update ''callee''
         (Obj (AList.update ''property'' (Obj (AList.update ''name'' (Str ''log'') pfs))
            (AList.update ''object'' (Obj (AList.update ''name'' (Str ''console'') ofs)) cfs)))
         fs)))"
    using h inc unfolding c ob p n by (intro CallExpression_match) simp_all
  then show "\<exists>node' callee' object' property'.
         CallExpression node = Some node' \<and>
         visitors (Str ''CallExpression'') node = Some node' \<and>
         get node' ''callee'' = Some callee' \<and>
         get callee' ''object'' = Some object' \<and>
         get object' ''name'' = Some (Str ''console'') \<and>
         get callee' ''property'' = Some property' \<and>
         get property' ''name'' = Some (Str ''log'') \<and>
         get node' ''arguments'' = Some (Arr [a]) \<and>
         (\<forall>k. k \<noteq> ''callee'' \<and> k \<noteq> ''arguments'' \<longrightarrow> get node' k = get node k) \<and>
         (\<forall>k. k \<noteq> ''object'' \<and> k \<noteq> ''property'' \<longrightarrow> get callee' k = get callee k) \<and>
         (\<forall>k. k \<noteq> ''name'' \<longrightarrow>
            get object' k = get object k \<and> get property' k = get property k)"
    unfolding c ob p n by (simp add: field_update visitors_def)
next
  assume h: "estree_ok (Obj fs) \<and>
    field fs ''type'' = Str ''CallExpression'' \<and>
    field fs ''callee'' = Obj cfs \<and>
    field cfs ''type'' = Str ''MemberExpression'' \<and>
    field cfs ''computed'' = Bool False \<and>
    field cfs ''object'' = Obj ofs \<and>
    field ofs ''type'' = Str ''Identifier'' \<and>
    field ofs ''name'' = Str ''assert'' \<and>
    field cfs ''property'' = Obj pfs \<and>
    field pfs ''type'' = Str ''Identifier'' \<and>
    field pfs ''name'' = Str m \<and>
    m \<in> {''equal'', ''strictEqual'', ''deepEqual''} \<and>
    field fs ''arguments'' = Arr [a, b]"
  then obtain node' where s: "simple (Obj fs) = Some node'" using simple_total by blast
  then obtain fs' where fs': "simple_fields fs = Some fs'"
    and v: "CallExpression (Obj fs') = Some node'"
    using h by (auto simp: Option.bind_eq_Some_conv visitors_def)
  have "simple (Obj cfs) = Some (field fs' ''callee'')"
    using simple_fields_field [OF fs', of "''callee''"] h by simp
  then obtain cfs' where cfs': "simple_fields cfs = Some cfs'"
    and callee: "field fs' ''callee'' = Obj cfs'"
    using h by (auto simp: Option.bind_eq_Some_conv visitors_def)
  have ctype: "field cfs' ''type'' = Str ''MemberExpression''"
    using simple_fields_Str [OF cfs'] h by simp
  have "simple (Obj ofs) = Some (field cfs' ''object'')"
    using simple_fields_field [OF cfs', of "''object''"] h by simp
  then obtain ofs' where ofs': "simple_fields ofs = Some ofs'"
    and object: "field cfs' ''object'' = Obj ofs'"
    using h by (auto simp: Option.bind_eq_Some_conv visitors_def)
  have oname: "field ofs' ''name'' = Str ''assert''"
    using simple_fields_Str [OF ofs'] h by simp
  have "simple (Obj pfs) = Some (field cfs' ''property'')"
    using simple_fields_field [OF cfs', of "''property''"] h by simp
  then obtain pfs' where pfs': "simple_fields pfs = Some pfs'"
    and property: "field cfs' ''property'' = Obj pfs'"
    using h by (auto simp: Option.bind_eq_Some_conv visitors_def)
  have pname: "includes_js assertProperties (field pfs' ''name'')"
    using simple_fields_Str [OF pfs', of "''name''" m] h by (auto simp: includes_assertProperties)
  have "simple (Arr [a, b]) = Some (field fs' ''arguments'')"
    using simple_fields_field [OF fs', of "''arguments''"] h by simp
  then have "\<exists>a' b'. simple a = Some a' \<and> field fs' ''arguments'' = Arr [a', b']"
    by (auto simp: Option.bind_eq_Some_conv) metis
  then obtain a' b' where a': "simple a = Some a'"
    and args: "field fs' ''arguments'' = Arr [a', b']"
    by blast
  have t: "field fs' ''type'' = Str ''CallExpression''"
    using simple_fields_Str [OF fs'] h by simp
  have "CallExpression (Obj fs') =
    Some (Obj (AList.update ''arguments'' (Arr [a'])
      (AList.update ''callee''
         (Obj (AList.update ''property'' (Obj (AList.update ''name'' (Str ''log'') pfs'))
            (AList.update ''object'' (Obj (AList.update ''name'' (Str ''console'') ofs')) cfs')))
         fs')))"
    using callee ctype object oname property pname args by (rule CallExpression_match)
  with v have "node' = Obj (AList.update ''arguments'' (Arr [a'])
      (AList.update ''callee''
         (Obj (AList.update ''property'' (Obj (AList.update ''name'' (Str ''log'') pfs'))
            (AList.update ''object'' (Obj (AList.update ''name'' (Str ''console'') ofs')) cfs')))
         fs'))"
    by simp
  then show "\<exists>node' callee' object' property' a'.
         simple (Obj fs) = Some node' \<and>
         simple a = Some a' \<and>
         get node' ''type'' = Some (Str ''CallExpression'') \<and>
         get node' ''callee'' = Some callee' \<and>
         get callee' ''type'' = Some (Str ''MemberExpression'') \<and>
         get callee' ''object'' = Some object' \<and>
         get object' ''name'' = Some (Str ''console'') \<and>
         get callee' ''property'' = Some property' \<and>
         get property' ''name'' = Some (Str ''log'') \<and>
         get node' ''arguments'' = Some (Arr [a'])"
    using s a' t ctype by (simp add: field_update)
qed

theorem assert_call_rewritten_witness:
  "estree_ok (Call (MemberExpression (Identifier ''assert'') (Identifier ''strictEqual''))
                [Identifier ''x'', Literal (Num 1) ''1'']) \<and>
   ''strictEqual'' \<in> {''equal'', ''strictEqual'', ''deepEqual''} \<and>
   (\<exists>node' callee' object' property'.
      CallExpression (Call (MemberExpression (Identifier ''assert'') (Identifier ''strictEqual''))
                        [Identifier ''x'', Literal (Num 1) ''1'']) = Some node' \<and>
      get node' ''callee'' = Some callee' \<and>
      get callee' ''object'' = Some object' \<and> get object' ''name'' = Some (Str ''console'') \<and>
      get callee' ''property'' = Some property' \<and> get property' ''name'' = Some (Str ''log'') \<and>
      get node' ''arguments'' = Some (Arr [Identifier ''x''])) \<and>
   (\<exists>node' callee' object' property'.
      simple (Call (MemberExpression (Identifier ''assert'') (Identifier ''strictEqual''))
                [Identifier ''x'', Literal (Num 1) ''1'']) = Some node' \<and>
      get node' ''callee'' = Some callee' \<and>
      get callee' ''object'' = Some object' \<and> get object' ''name'' = Some (Str ''console'') \<and>
      get callee' ''property'' = Some property' \<and> get property' ''name'' = Some (Str ''log'') \<and>
      get node' ''arguments'' = Some (Arr [Identifier ''x'']))"
proof -
  let ?ofs = "[(''type'', Str ''Identifier''), (''name'', Str ''assert'')]"
  let ?pfs = "[(''type'', Str ''Identifier''), (''name'', Str ''strictEqual'')]"
  let ?cfs = "[(''type'', Str ''MemberExpression''), (''object'', Obj ?ofs),
               (''property'', Obj ?pfs), (''computed'', Bool False), (''optional'', Bool False)]"
  let ?x = "Identifier ''x''"
  let ?one = "Literal (Num 1) ''1''"
  let ?fs = "[(''type'', Str ''CallExpression''), (''callee'', Obj ?cfs),
              (''arguments'', Arr [?x, ?one]), (''optional'', Bool False)]"
  let ?node = "Call (MemberExpression (Identifier ''assert'') (Identifier ''strictEqual'')) [?x, ?one]"
  have n: "?node = Obj ?fs" by (simp add: Call_def MemberExpression_def Identifier_def)
  have ok: "estree_ok ?node"
    by (simp add: node_defs node_ok_def field_def is_Obj_def is_Arr_def)
  have m: "''strictEqual'' \<in> {''equal'', ''strictEqual'', ''deepEqual''}" by simp
  have h1: "get (Obj ?fs) ''callee'' = Some (Obj ?cfs) \<and>
    get (Obj ?cfs) ''type'' = Some (Str ''MemberExpression'') \<and>
    get (Obj ?cfs) ''computed'' = Some (Bool False) \<and>
    get (Obj ?cfs) ''object'' = Some (Obj ?ofs) \<and>
    get (Obj ?ofs) ''name'' = Some (Str ''assert'') \<and>
    get (Obj ?cfs) ''property'' = Some (Obj ?pfs) \<and>
    get (Obj ?pfs) ''name'' = Some (Str ''strictEqual'') \<and>
    ''strictEqual'' \<in> {''equal'', ''strictEqual'', ''deepEqual''} \<and>
    get (Obj ?fs) ''arguments'' = Some (Arr [?x, ?one])"
    by (simp add: field_def)
  have h2: "estree_ok (Obj ?fs) \<and>
    field ?fs ''type'' = Str ''CallExpression'' \<and>
    field ?fs ''callee'' = Obj ?cfs \<and>
    field ?cfs ''type'' = Str ''MemberExpression'' \<and>
    field ?cfs ''computed'' = Bool False \<and>
    field ?cfs ''object'' = Obj ?ofs \<and>
    field ?ofs ''type'' = Str ''Identifier'' \<and>
    field ?ofs ''name'' = Str ''assert'' \<and>
    field ?cfs ''property'' = Obj ?pfs \<and>
    field ?pfs ''type'' = Str ''Identifier'' \<and>
    field ?pfs ''name'' = Str ''strictEqual'' \<and>
    ''strictEqual'' \<in> {''equal'', ''strictEqual'', ''deepEqual''} \<and>
    field ?fs ''arguments'' = Arr [?x, ?one]"
    using ok unfolding n by (simp add: field_def)
  have x: "simple ?x = Some ?x" by (rule simple_Identifier)
  note t = assert_call_rewritten [where node = "Obj ?fs" and callee = "Obj ?cfs"
      and object = "Obj ?ofs" and property = "Obj ?pfs" and m = "''strictEqual''"
      and a = ?x and b = ?one and fs = ?fs and cfs = ?cfs and ofs = ?ofs and pfs = ?pfs]
  from t [THEN conjunct1, THEN mp, OF h1] have r1: "\<exists>node' callee' object' property'.
      CallExpression (Obj ?fs) = Some node' \<and>
      get node' ''callee'' = Some callee' \<and>
      get callee' ''object'' = Some object' \<and> get object' ''name'' = Some (Str ''console'') \<and>
      get callee' ''property'' = Some property' \<and> get property' ''name'' = Some (Str ''log'') \<and>
      get node' ''arguments'' = Some (Arr [?x])"
    by (elim exE conjE, intro exI conjI) assumption+
  from t [THEN conjunct2, THEN mp, OF h2] have "\<exists>node' callee' object' property' a'.
         simple (Obj ?fs) = Some node' \<and>
         simple ?x = Some a' \<and>
         get node' ''type'' = Some (Str ''CallExpression'') \<and>
         get node' ''callee'' = Some callee' \<and>
         get callee' ''type'' = Some (Str ''MemberExpression'') \<and>
         get callee' ''object'' = Some object' \<and>
         get object' ''name'' = Some (Str ''console'') \<and>
         get callee' ''property'' = Some property' \<and>
         get property' ''name'' = Some (Str ''log'') \<and>
         get node' ''arguments'' = Some (Arr [a'])"
    .
  then have r2: "\<exists>node' callee' object' property'.
      simple (Obj ?fs) = Some node' \<and>
      get node' ''callee'' = Some callee' \<and>
      get callee' ''object'' = Some object' \<and> get object' ''name'' = Some (Str ''console'') \<and>
      get callee' ''property'' = Some property' \<and> get property' ''name'' = Some (Str ''log'') \<and>
      get node' ''arguments'' = Some (Arr [?x])"
    unfolding x by (elim exE conjE, intro exI conjI) (assumption | simp)+
  from ok m r1 r2 show ?thesis unfolding n by (intro conjI)
qed



text \<open>
  Claim C10. The rule looks at names only. In a program with any statements before and
  after it, imports or none, a two-argument call \<^verbatim>\<open>assert.m(a, b)\<close> with \<open>m\<close> one of the
  three member names becomes \<^verbatim>\<open>console.log(a)\<close>; the same call through an identifier
  with any other name, such as the local name of an aliased import of the assert
  module, keeps its callee and all its arguments. The same two facts hold of the rule
  at a single node with any further properties, such as source positions: the rule has
  the node as its only input.
\<close>

theorem assert_rewrite_ignores_bindings:
  "(m \<in> {''equal'', ''strictEqual'', ''deepEqual''} \<and> simple_list pre = Some pre' \<and>
    simple a = Some a' \<and> simple b = Some b' \<and> simple_list post = Some post' \<longrightarrow>
      simple (Program (pre @
          ExprStmt (Call (MemberExpression (Identifier ''assert'') (Identifier m)) [a, b]) # post))
        = Some (Program (pre' @
          ExprStmt (Call (MemberExpression (Identifier ''console'') (Identifier ''log'')) [a']) # post'))) \<and>
   (x \<noteq> ''assert'' \<and> simple_list pre = Some pre' \<and>
    simple_list args = Some args' \<and> simple_list post = Some post' \<longrightarrow>
      simple (Program (pre @
          ExprStmt (Call (MemberExpression (Identifier x) (Identifier m)) args) # post))
        = Some (Program (pre' @
          ExprStmt (Call (MemberExpression (Identifier x) (Identifier m)) args') # post'))) \<and>
   (get node ''callee'' = Some (Obj cfs) \<and> field cfs ''type'' = Str ''MemberExpression'' \<and>
    field cfs ''object'' = Obj ofs \<and> field ofs ''name'' = Str ''assert'' \<and>
    field cfs ''property'' = Obj pfs \<and> field pfs ''name'' = Str m \<and>
    m \<in> {''equal'', ''strictEqual'', ''deepEqual''} \<and>
    get node ''arguments'' = Some (Arr [a, b]) \<longrightarrow>
      (\<exists>node' callee' object' property'.
         CallExpression node = Some node' \<and>
         get node' ''callee'' = Some callee' \<and>
         get callee' ''object'' = Some object' \<and> get object' ''name'' = Some (Str ''console'') \<and>
         get callee' ''property'' = Some property' \<and> get property' ''name'' = Some (Str ''log'') \<and>
         get node' ''arguments'' = Some (Arr [a]))) \<and>
   (get node ''callee'' = Some (Obj cfs) \<and>
    get_opt (field cfs ''object'') ''name'' \<noteq> Str ''assert'' \<longrightarrow>
      CallExpression node = Some node)"
proof (intro conjI impI)
  assume a: "m \<in> {''equal'', ''strictEqual'', ''deepEqual''} \<and> simple_list pre = Some pre' \<and>
    simple a = Some a' \<and> simple b = Some b' \<and> simple_list post = Some post'"
  then have "simple (Call (MemberExpression (Identifier ''assert'') (Identifier m)) [a, b]) =
     Some (Call (MemberExpression (Identifier ''console'') (Identifier ''log'')) [a'])"
    by (intro simple_Call_assert) simp_all
  with a show "simple (Program (pre @
          ExprStmt (Call (MemberExpression (Identifier ''assert'') (Identifier m)) [a, b]) # post))
        = Some (Program (pre' @
          ExprStmt (Call (MemberExpression (Identifier ''console'') (Identifier ''log'')) [a']) # post'))"
    by (simp add: simple_Program simple_list_append simple_ExprStmt)
next
  assume a: "x \<noteq> ''assert'' \<and> simple_list pre = Some pre' \<and>
    simple_list args = Some args' \<and> simple_list post = Some post'"
  then have "simple (Call (MemberExpression (Identifier x) (Identifier m)) args) =
     Some (Call (MemberExpression (Identifier x) (Identifier m)) args')"
    by (intro simple_Call_other) simp_all
  with a show "simple (Program (pre @
          ExprStmt (Call (MemberExpression (Identifier x) (Identifier m)) args) # post))
        = Some (Program (pre' @
          ExprStmt (Call (MemberExpression (Identifier x) (Identifier m)) args') # post'))"
    by (simp add: simple_Program simple_list_append simple_ExprStmt)
next
  assume a: "get node ''callee'' = Some (Obj cfs) \<and> field cfs ''type'' = Str ''MemberExpression'' \<and>
    field cfs ''object'' = Obj ofs \<and> field ofs ''name'' = Str ''assert'' \<and>
    field cfs ''property'' = Obj pfs \<and> field pfs ''name'' = Str m \<and>
    m \<in> {''equal'', ''strictEqual'', ''deepEqual''} \<and>
    get node ''arguments'' = Some (Arr [a, b])"
  then obtain fs where n: "node = Obj fs" using get_Obj_is_Obj by blast
  have inc: "includes_js assertProperties (field pfs ''name'')"
    using a by (auto simp: includes_assertProperties)
  have "CallExpression (Obj fs) =
    Some (Obj (AList.update ''arguments'' (Arr [a])
      (AList.update ''callee''
         (Obj (AList.update ''property'' (Obj (AList.update ''name'' (Str ''log'') pfs))
            (AList.update ''object'' (Obj (AList.update ''name'' (Str ''console'') ofs)) cfs)))
         fs)))"
    using a inc unfolding n by (intro CallExpression_match) simp_all
  then show "\<exists>node' callee' object' property'.
         CallExpression node = Some node' \<and>
         get node' ''callee'' = Some callee' \<and>
         get callee' ''object'' = Some object' \<and> get object' ''name'' = Some (Str ''console'') \<and>
         get callee' ''property'' = Some property' \<and> get property' ''name'' = Some (Str ''log'') \<and>
         get node' ''arguments'' = Some (Arr [a])"
    unfolding n by (simp add: field_update)
next
  assume a: "get node ''callee'' = Some (Obj cfs) \<and>
    get_opt (field cfs ''object'') ''name'' \<noteq> Str ''assert''"
  then show "CallExpression node = Some node"
    by (cases "field cfs ''object''") (auto simp: CallExpression_def get_opt_def)
qed

theorem assert_rewrite_ignores_bindings_witness:
  \<open>simple (Program [ExprStmt (Call (MemberExpression (Identifier ''assert'') (Identifier ''equal''))
                       [Identifier ''x'', Literal (Num 1) ''1''])])
     = Some (Program [ExprStmt (Call (MemberExpression (Identifier ''console'') (Identifier ''log''))
                       [Identifier ''x''])]) \<and>
   ''a'' \<noteq> ''assert'' \<and>
   simple (Program [Import [ImportDefaultSpecifier ''a''] (Literal (Str ''assert'') ''"assert"''),
                    ExprStmt (Call (MemberExpression (Identifier ''a'') (Identifier ''equal''))
                       [Identifier ''x'', Literal (Num 1) ''1''])])
     = Some (Program [Obj [(''type'', Str ''EmptyStatement''),
                           (''specifiers'', Arr [ImportDefaultSpecifier ''a'']),
                           (''source'', Literal (Str ''assert'') ''"assert"'')],
                      ExprStmt (Call (MemberExpression (Identifier ''a'') (Identifier ''equal''))
                       [Identifier ''x'', Literal (Num 1) ''1''])]) \<and>
   (\<exists>node'.
      CallExpression
        (Obj [(''type'', Str ''CallExpression''), (''start'', Num 0), (''end'', Num 18),
              (''callee'',
               Obj [(''type'', Str ''MemberExpression''), (''start'', Num 0), (''end'', Num 12),
                    (''object'', Obj [(''type'', Str ''Identifier''), (''start'', Num 0),
                                      (''end'', Num 6), (''name'', Str ''assert'')]),
                    (''property'', Obj [(''type'', Str ''Identifier''), (''start'', Num 7),
                                        (''end'', Num 12), (''name'', Str ''equal'')]),
                    (''computed'', Bool False), (''optional'', Bool False)]),
              (''arguments'', Arr [Identifier ''x'', Literal (Num 1) ''1'']),
              (''optional'', Bool False)]) = Some node' \<and>
      get node' ''arguments'' = Some (Arr [Identifier ''x''])) \<and>
   CallExpression (Call (MemberExpression (Identifier ''a'') (Identifier ''equal''))
                     [Identifier ''x'', Literal (Num 1) ''1''])
     = Some (Call (MemberExpression (Identifier ''a'') (Identifier ''equal''))
                     [Identifier ''x'', Literal (Num 1) ''1''])\<close>
proof -
  let ?x = "Identifier ''x''"
  let ?one = "Literal (Num 1) ''1''"
  let ?imp = \<open>Import [ImportDefaultSpecifier ''a''] (Literal (Str ''assert'') ''"assert"'')\<close>
  let ?imp' = \<open>Obj [(''type'', Str ''EmptyStatement''),
                     (''specifiers'', Arr [ImportDefaultSpecifier ''a'']),
                     (''source'', Literal (Str ''assert'') ''"assert"'')]\<close>
  let ?ofs = "[(''type'', Str ''Identifier''), (''start'', Num 0), (''end'', Num 6),
               (''name'', Str ''assert'')]"
  let ?pfs = "[(''type'', Str ''Identifier''), (''start'', Num 7), (''end'', Num 12),
               (''name'', Str ''equal'')]"
  let ?cfs = "[(''type'', Str ''MemberExpression''), (''start'', Num 0), (''end'', Num 12),
               (''object'', Obj ?ofs), (''property'', Obj ?pfs),
               (''computed'', Bool False), (''optional'', Bool False)]"
  let ?node = "Obj [(''type'', Str ''CallExpression''), (''start'', Num 0), (''end'', Num 18),
               (''callee'', Obj ?cfs), (''arguments'', Arr [?x, ?one]),
               (''optional'', Bool False)]"
  let ?acfs = "[(''type'', Str ''MemberExpression''), (''object'', Identifier ''a''),
                (''property'', Identifier ''equal''), (''computed'', Bool False),
                (''optional'', Bool False)]"
  let ?anode = "Call (MemberExpression (Identifier ''a'') (Identifier ''equal'')) [?x, ?one]"
  have x: "simple ?x = Some ?x" by (rule simple_Identifier)
  have one: "simple ?one = Some ?one" by (simp add: Literal_def visitors_def field_def)
  have imp: "simple_list [?imp] = Some [?imp']"
    by (simp add: node_defs visitors_def ImportDeclaration_def field_def includes_sourceList)
  have h1: "''equal'' \<in> {''equal'', ''strictEqual'', ''deepEqual''} \<and> simple_list [] = Some [] \<and>
    simple ?x = Some ?x \<and> simple ?one = Some ?one \<and> simple_list [] = Some []"
    using x one by simp
  have h2: "''a'' \<noteq> ''assert'' \<and> simple_list [?imp] = Some [?imp'] \<and>
    simple_list [?x, ?one] = Some [?x, ?one] \<and> simple_list [] = Some []"
    using x one imp by simp
  have h3: "get ?node ''callee'' = Some (Obj ?cfs) \<and> field ?cfs ''type'' = Str ''MemberExpression'' \<and>
    field ?cfs ''object'' = Obj ?ofs \<and> field ?ofs ''name'' = Str ''assert'' \<and>
    field ?cfs ''property'' = Obj ?pfs \<and> field ?pfs ''name'' = Str ''equal'' \<and>
    ''equal'' \<in> {''equal'', ''strictEqual'', ''deepEqual''} \<and>
    get ?node ''arguments'' = Some (Arr [?x, ?one])"
    by (simp add: field_def)
  have h4: "get ?anode ''callee'' = Some (Obj ?acfs) \<and>
    get_opt (field ?acfs ''object'') ''name'' \<noteq> Str ''assert''"
    by (simp add: Call_def MemberExpression_def Identifier_def field_def get_opt_def)
  from assert_rewrite_ignores_bindings [where m = "''equal''" and pre = "[]" and pre' = "[]"
      and a = ?x and a' = ?x and b = ?one and b' = ?one and post = "[]" and post' = "[]"
      and x = "''a''" and args = "[]" and args' = "[]"
      and node = ?node and cfs = ?cfs and ofs = ?ofs and pfs = ?pfs] h1 h3
  have r1: "simple (Program ([] @ [ExprStmt (Call (MemberExpression (Identifier ''assert'') (Identifier ''equal'')) [?x, ?one])]))
     = Some (Program ([] @ [ExprStmt (Call (MemberExpression (Identifier ''console'') (Identifier ''log'')) [?x])]))"
    and "\<exists>node' callee' object' property'.
         CallExpression ?node = Some node' \<and>
         get node' ''callee'' = Some callee' \<and>
         get callee' ''object'' = Some object' \<and> get object' ''name'' = Some (Str ''console'') \<and>
         get callee' ''property'' = Some property' \<and> get property' ''name'' = Some (Str ''log'') \<and>
         get node' ''arguments'' = Some (Arr [?x])"
    by blast+
  then have r3: "\<exists>node'. CallExpression ?node = Some node' \<and>
      get node' ''arguments'' = Some (Arr [?x])"
    by (elim exE conjE, intro exI conjI) assumption+
  from assert_rewrite_ignores_bindings [where m = "''equal''" and pre = "[?imp]" and pre' = "[?imp']"
      and a = ?x and a' = ?x and b = ?one and b' = ?one and post = "[]" and post' = "[]"
      and x = "''a''" and args = "[?x, ?one]" and args' = "[?x, ?one]"
      and node = ?anode and cfs = ?acfs] h2 h4
  have r2: "simple (Program ([?imp] @ [ExprStmt (Call (MemberExpression (Identifier ''a'') (Identifier ''equal'')) [?x, ?one])]))
     = Some (Program ([?imp'] @ [ExprStmt (Call (MemberExpression (Identifier ''a'') (Identifier ''equal'')) [?x, ?one])]))"
    and r4: "CallExpression ?anode = Some ?anode"
    by blast+
  from r1 have r1': "simple (Program [ExprStmt (Call (MemberExpression (Identifier ''assert'') (Identifier ''equal'')) [?x, ?one])])
     = Some (Program [ExprStmt (Call (MemberExpression (Identifier ''console'') (Identifier ''log'')) [?x])])"
    by simp
  from r2 have r2': "simple (Program [?imp, ExprStmt (Call (MemberExpression (Identifier ''a'') (Identifier ''equal'')) [?x, ?one])])
     = Some (Program [?imp', ExprStmt (Call (MemberExpression (Identifier ''a'') (Identifier ''equal'')) [?x, ?one])])"
    by simp
  have ne: "''a'' \<noteq> ''assert''" by simp
  from r1' ne r2' r3 r4 show ?thesis by (intro conjI)
qed

text \<open>
  The rule does not read \<^verbatim>\<open>computed\<close>: a computed access whose property is an
  identifier carries a name as well, so \<^verbatim>\<open>assert[equal](a, b)\<close> is rewritten like the
  plain access.
\<close>

lemma computed_identifier_access:
  "CallExpression
     (Call (Obj [(''type'', Str ''MemberExpression''), (''object'', Identifier ''assert''),
                 (''property'', Identifier ''equal''), (''computed'', Bool True),
                 (''optional'', Bool False)])
        [Identifier ''a'', Identifier ''b''])
   = Some
     (Call (Obj [(''type'', Str ''MemberExpression''), (''object'', Identifier ''console''),
                 (''property'', Identifier ''log''), (''computed'', Bool True),
                 (''optional'', Bool False)])
        [Identifier ''a''])"
  by (simp add: Call_def Identifier_def CallExpression_def field_def get_opt_def
      includes_assertProperties)

section \<open>Import and directive elision\<close>



text \<open>
  Claim C4. An expression statement whose \<^verbatim>\<open>directive\<close> is the string \<^verbatim>\<open>use strict\<close>
  gets the type \<^verbatim>\<open>EmptyStatement\<close>; one whose \<^verbatim>\<open>directive\<close> is anything else, or
  absent, is returned as it was; and when the first statement of a program is that
  directive, the first statement of the tree handed to the code generator is an empty
  statement.
\<close>

theorem use_strict_directive_elided:
  "(get node ''directive'' = Some (Str ''use strict'') \<longrightarrow>
      (\<exists>node'. ExpressionStatement node = Some node' \<and>
         get node' ''type'' = Some (Str ''EmptyStatement'') \<and>
         (\<forall>k. k \<noteq> ''type'' \<longrightarrow> get node' k = get node k))) \<and>
   (get node ''directive'' = Some d \<and> d \<noteq> Str ''use strict'' \<longrightarrow>
      ExpressionStatement node = Some node) \<and>
   (parse code = Inr (Obj fs) \<and> estree_ok (Obj fs) \<and>
    field fs ''type'' = Str ''Program'' \<and> field fs ''body'' = Arr (Obj sfs # rest) \<and>
    field sfs ''type'' = Str ''ExpressionStatement'' \<and>
    field sfs ''directive'' = Str ''use strict'' \<longrightarrow>
      (\<exists>ast' s' rest'.
         rewriteRolldown parse generate code = map_sum GenerateError normalize_output (generate ast') \<and>
         get ast' ''body'' = Some (Arr (s' # rest')) \<and>
         get s' ''type'' = Some (Str ''EmptyStatement'') \<and>
         simple_list rest = Some rest'))"
proof (intro conjI impI)
  assume a: "get node ''directive'' = Some (Str ''use strict'')"
  then obtain nfs where n: "node = Obj nfs" using get_Str_is_Obj by fastforce
  from a have "ExpressionStatement node = Some (Obj (AList.update ''type'' (Str ''EmptyStatement'') nfs))"
    by (simp add: ExpressionStatement_def n)
  then show "\<exists>node'. ExpressionStatement node = Some node' \<and>
         get node' ''type'' = Some (Str ''EmptyStatement'') \<and>
         (\<forall>k. k \<noteq> ''type'' \<longrightarrow> get node' k = get node k)"
    by (simp add: n field_update)
next
  assume "get node ''directive'' = Some d \<and> d \<noteq> Str ''use strict''"
  then show "ExpressionStatement node = Some node"
    by (simp add: ExpressionStatement_def)
next
  assume a: "parse code = Inr (Obj fs) \<and> estree_ok (Obj fs) \<and>
    field fs ''type'' = Str ''Program'' \<and> field fs ''body'' = Arr (Obj sfs # rest) \<and>
    field sfs ''type'' = Str ''ExpressionStatement'' \<and>
    field sfs ''directive'' = Str ''use strict''"
  then obtain ast' where s: "simple (Obj fs) = Some ast'" using simple_total by blast
  then obtain fs' where fs': "simple_fields fs = Some fs'"
    and v: "visitors (field fs ''type'') (Obj fs') = Some ast'"
    by (auto simp: Option.bind_eq_Some_conv)
  from v a have ast': "ast' = Obj fs'" by (simp add: visitors_def)
  have "simple (Arr (Obj sfs # rest)) = Some (field fs' ''body'')"
    using simple_fields_field [OF fs', of "''body''"] a by simp
  then obtain s' rest' where s': "simple (Obj sfs) = Some s'"
    and rest': "simple_list rest = Some rest'"
    and body: "field fs' ''body'' = Arr (s' # rest')"
    by (auto simp: Option.bind_eq_Some_conv)
  from s' obtain sfs' where sfs': "simple_fields sfs = Some sfs'"
    and sv: "visitors (field sfs ''type'') (Obj sfs') = Some s'"
    by (auto simp: Option.bind_eq_Some_conv)
  have "field sfs' ''directive'' = Str ''use strict''"
    using simple_fields_Str [OF sfs'] a by simp
  with sv a have "s' = Obj (AList.update ''type'' (Str ''EmptyStatement'') sfs')"
    by (simp add: visitors_def ExpressionStatement_def)
  then have "get s' ''type'' = Some (Str ''EmptyStatement'')" by (simp add: field_update)
  moreover have "rewriteRolldown parse generate code = map_sum GenerateError normalize_output (generate ast')"
    using a s by (simp add: rewriteRolldown_Inr)
  moreover have "get ast' ''body'' = Some (Arr (s' # rest'))" using ast' body by simp
  ultimately show "\<exists>ast' s' rest'.
         rewriteRolldown parse generate code = map_sum GenerateError normalize_output (generate ast') \<and>
         get ast' ''body'' = Some (Arr (s' # rest')) \<and>
         get s' ''type'' = Some (Str ''EmptyStatement'') \<and>
         simple_list rest = Some rest'"
    using rest' by blast
qed

theorem use_strict_directive_elided_witness:
  "(\<exists>node'. ExpressionStatement (Directive (Literal (Str ''use strict'') ''\"use strict\"'') ''use strict'') = Some node' \<and>
       get node' ''type'' = Some (Str ''EmptyStatement'')) \<and>
   ExpressionStatement (Directive (Literal (Str ''use asm'') ''\"use asm\"'') ''use asm'')
     = Some (Directive (Literal (Str ''use asm'') ''\"use asm\"'') ''use asm'') \<and>
   ExpressionStatement (ExprStmt (Literal (Str ''use strict'') ''\"use strict\"''))
     = Some (ExprStmt (Literal (Str ''use strict'') ''\"use strict\"'')) \<and>
   estree_ok (Program [Directive (Literal (Str ''use strict'') ''\"use strict\"'') ''use strict'',
                       ExprStmt (Call (Identifier ''f'') [])]) \<and>
   (\<exists>ast' s'.
      rewriteRolldown (\<lambda>code. Inr (Program [Directive (Literal (Str ''use strict'') ''\"use strict\"'') ''use strict'',
                       ExprStmt (Call (Identifier ''f'') [])]) :: string + jsval)
          (\<lambda>t. Inr '';\<newline>f();'' :: string + string) ''x''
        = Inr ''f();'' \<and>
      get ast' ''body'' = Some (Arr [s', ExprStmt (Call (Identifier ''f'') [])]) \<and>
      get s' ''type'' = Some (Str ''EmptyStatement''))"
proof -
  let ?lit = "Literal (Str ''use strict'') ''\"use strict\"''"
  let ?d1 = "Directive ?lit ''use strict''"
  let ?d2 = "Directive (Literal (Str ''use asm'') ''\"use asm\"'') ''use asm''"
  let ?e = "ExprStmt ?lit"
  let ?f = "ExprStmt (Call (Identifier ''f'') [])"
  let ?sfs = "[(''type'', Str ''ExpressionStatement''), (''expression'', ?lit),
               (''directive'', Str ''use strict'')]"
  let ?fs = "[(''type'', Str ''Program''), (''body'', Arr [Obj ?sfs, ?f]),
              (''sourceType'', Str ''module'')]"
  let ?parse = "\<lambda>code. Inr (Program [?d1, ?f]) :: string + jsval"
  let ?gen = "\<lambda>t. Inr '';\<newline>f();'' :: string + string"
  have g: "map_sum GenerateError normalize_output (?gen t) = Inr ''f();''" for t
    by (simp add: normalize_output_def)
  have p: "Program [?d1, ?f] = Obj ?fs" by (simp add: Program_def Directive_def)
  have a: "get ?d1 ''directive'' = Some (Str ''use strict'')"
    by (simp add: Directive_def field_def)
  have b: "get ?d2 ''directive'' = Some (Str ''use asm'') \<and> Str ''use asm'' \<noteq> Str ''use strict''"
    by (simp add: Directive_def field_def)
  have b': "get ?e ''directive'' = Some Undefined \<and> Undefined \<noteq> Str ''use strict''"
    by (simp add: ExprStmt_def field_def)
  have ok: "estree_ok (Program [?d1, ?f])"
    by (simp add: node_defs node_ok_def field_def is_Obj_def is_Arr_def)
  have c: "?parse ''x'' = Inr (Obj ?fs) \<and> estree_ok (Obj ?fs) \<and>
    field ?fs ''type'' = Str ''Program'' \<and> field ?fs ''body'' = Arr (Obj ?sfs # [?f]) \<and>
    field ?sfs ''type'' = Str ''ExpressionStatement'' \<and>
    field ?sfs ''directive'' = Str ''use strict''"
    using ok unfolding p by (simp add: field_def)
  have f: "simple_list [?f] = Some [?f]"
    by (simp add: node_defs visitors_def ExpressionStatement_def CallExpression_def field_def)
  from use_strict_directive_elided [where node = ?d1 and d = Undefined and parse = ?parse
      and code = "''x''" and fs = ?fs and sfs = ?sfs and rest = "[?f]" and generate = ?gen]
    a c
  have "(\<exists>node'. ExpressionStatement ?d1 = Some node' \<and>
       get node' ''type'' = Some (Str ''EmptyStatement''))"
    and "\<exists>ast' s' rest'.
         rewriteRolldown ?parse ?gen ''x'' = map_sum GenerateError normalize_output (?gen ast') \<and>
         get ast' ''body'' = Some (Arr (s' # rest')) \<and>
         get s' ''type'' = Some (Str ''EmptyStatement'') \<and>
         simple_list [?f] = Some rest'"
    by blast+
  moreover
  from use_strict_directive_elided [where node = ?d2 and d = "Str ''use asm''"] b
  have "ExpressionStatement ?d2 = Some ?d2" by blast
  moreover
  from use_strict_directive_elided [where node = ?e and d = Undefined] b'
  have "ExpressionStatement ?e = Some ?e" by blast
  ultimately show ?thesis using ok f unfolding g by (intro conjI; simp)
qed

section \<open>Failure\<close>

text \<open>
  Claim C9. The traversal returns a tree, and throws nothing, on every tree of a valid
  parse. A call whose callee is not a member access, or whose member access has an
  object or a property without a name, is returned by the call rule as it was, whatever
  its arguments are; the import rule and the directive rule return a node that does not
  match as it was.
\<close>

theorem rewriter_never_fails:
  "(estree_ok ast \<longrightarrow> (\<exists>ast'. simple ast = Some ast')) \<and>
   (get node ''callee'' = Some (Obj cfs) \<and>
      (field cfs ''type'' \<noteq> Str ''MemberExpression'' \<or>
       get_opt (field cfs ''object'') ''name'' = Undefined \<or>
       get_opt (field cfs ''property'') ''name'' = Undefined) \<longrightarrow>
      CallExpression node = Some node) \<and>
   (get node ''source'' = Some (Obj sfs) \<and> \<not> includes_js sourceList (field sfs ''value'') \<longrightarrow>
      ImportDeclaration node = Some node) \<and>
   (get node ''directive'' = Some d \<and> d \<noteq> Str ''use strict'' \<longrightarrow>
      ExpressionStatement node = Some node)"
proof (intro conjI impI)
  assume "estree_ok ast"
  then show "\<exists>ast'. simple ast = Some ast'" by (rule simple_total)
next
  assume a: "get node ''callee'' = Some (Obj cfs) \<and>
      (field cfs ''type'' \<noteq> Str ''MemberExpression'' \<or>
       get_opt (field cfs ''object'') ''name'' = Undefined \<or>
       get_opt (field cfs ''property'') ''name'' = Undefined)"
  then have "get node ''callee'' = Some (Obj cfs)" by simp
  moreover have "get (field cfs ''object'') ''name'' = None \<or> (\<exists>x. get (field cfs ''object'') ''name'' = Some x)"
    by auto
  ultimately show "CallExpression node = Some node" using a
    by (cases "field cfs ''object''")
       (auto simp: CallExpression_def get_opt_def includes_assertProperties)
next
  assume "get node ''source'' = Some (Obj sfs) \<and> \<not> includes_js sourceList (field sfs ''value'')"
  then show "ImportDeclaration node = Some node" by (simp add: ImportDeclaration_def)
next
  assume "get node ''directive'' = Some d \<and> d \<noteq> Str ''use strict''"
  then show "ExpressionStatement node = Some node" by (simp add: ExpressionStatement_def)
qed

theorem rewriter_never_fails_witness:
  \<open>estree_ok example_ast \<and> (\<exists>ast'. simple example_ast = Some ast') \<and>
   CallExpression (Call (Identifier ''compute'') []) = Some (Call (Identifier ''compute'') []) \<and>
   CallExpression
     (Call (Obj [(''type'', Str ''MemberExpression''), (''object'', Identifier ''assert''),
                 (''property'', Literal (Str ''equal'') ''"equal"''), (''computed'', Bool True),
                 (''optional'', Bool False)])
        [Identifier ''a'', Identifier ''b''])
     = Some
     (Call (Obj [(''type'', Str ''MemberExpression''), (''object'', Identifier ''assert''),
                 (''property'', Literal (Str ''equal'') ''"equal"''), (''computed'', Bool True),
                 (''optional'', Bool False)])
        [Identifier ''a'', Identifier ''b'']) \<and>
   CallExpression
     (Call (MemberExpression (Call (Identifier ''f'') []) (Identifier ''equal''))
        [Identifier ''a'', Identifier ''b''])
     = Some
     (Call (MemberExpression (Call (Identifier ''f'') []) (Identifier ''equal''))
        [Identifier ''a'', Identifier ''b'']) \<and>
   ImportDeclaration (Import [] (Literal (Str ''node:fs'') ''"node:fs"''))
     = Some (Import [] (Literal (Str ''node:fs'') ''"node:fs"'')) \<and>
   ExpressionStatement (ExprStmt (Identifier ''x'')) = Some (ExprStmt (Identifier ''x''))\<close>
proof -
  let ?c1 = "Call (Identifier ''compute'') []"
  let ?cfs2 = \<open>[(''type'', Str ''MemberExpression''), (''object'', Identifier ''assert''),
                 (''property'', Literal (Str ''equal'') ''"equal"''), (''computed'', Bool True),
                 (''optional'', Bool False)]\<close>
  let ?c2 = "Call (Obj ?cfs2) [Identifier ''a'', Identifier ''b'']"
  let ?cfs3 = "[(''type'', Str ''MemberExpression''), (''object'', Call (Identifier ''f'') []),
                (''property'', Identifier ''equal''), (''computed'', Bool False),
                (''optional'', Bool False)]"
  let ?c3 = "Call (MemberExpression (Call (Identifier ''f'') []) (Identifier ''equal''))
        [Identifier ''a'', Identifier ''b'']"
  let ?sfs = \<open>[(''type'', Str ''Literal''), (''value'', Str ''node:fs''), (''raw'', Str ''"node:fs"'')]\<close>
  let ?i = \<open>Import [] (Literal (Str ''node:fs'') ''"node:fs"'')\<close>
  let ?e = "ExprStmt (Identifier ''x'')"
  have h1: "get ?c1 ''callee'' = Some (Obj [(''type'', Str ''Identifier''), (''name'', Str ''compute'')]) \<and>
      (field [(''type'', Str ''Identifier''), (''name'', Str ''compute'')] ''type'' \<noteq> Str ''MemberExpression'' \<or> False \<or> False)"
    by (simp add: Call_def Identifier_def field_def)
  have h2: "get ?c2 ''callee'' = Some (Obj ?cfs2) \<and>
      (False \<or> False \<or> get_opt (field ?cfs2 ''property'') ''name'' = Undefined)"
    by (simp add: Call_def Literal_def field_def get_opt_def)
  have h3: "get ?c3 ''callee'' = Some (Obj ?cfs3) \<and>
      (False \<or> get_opt (field ?cfs3 ''object'') ''name'' = Undefined \<or> False)"
    by (simp add: Call_def MemberExpression_def field_def get_opt_def Identifier_def)
  have h4: "get ?i ''source'' = Some (Obj ?sfs) \<and> \<not> includes_js sourceList (field ?sfs ''value'')"
    by (simp add: Import_def Literal_def field_def includes_sourceList)
  have h5: "get ?e ''directive'' = Some Undefined \<and> Undefined \<noteq> Str ''use strict''"
    by (simp add: ExprStmt_def field_def)
  from rewriter_never_fails [where ast = example_ast and node = ?c1
      and cfs = "[(''type'', Str ''Identifier''), (''name'', Str ''compute'')]"] estree_ok_example h1
  have "\<exists>ast'. simple example_ast = Some ast'" and "CallExpression ?c1 = Some ?c1" by blast+
  moreover from rewriter_never_fails [where node = ?c2 and cfs = ?cfs2] h2
  have "CallExpression ?c2 = Some ?c2" by blast
  moreover from rewriter_never_fails [where node = ?c3 and cfs = ?cfs3] h3
  have "CallExpression ?c3 = Some ?c3" by blast
  moreover from rewriter_never_fails [where node = ?i and sfs = ?sfs] h4
  have "ImportDeclaration ?i = Some ?i" by blast
  moreover from rewriter_never_fails [where node = ?e and d = Undefined] h5
  have "ExpressionStatement ?e = Some ?e" by blast
  ultimately show ?thesis using estree_ok_example by (intro conjI)
qed

text \<open>
  Claim C8, as the code has it. When the parser throws, both entry points fail with that
  same error and nothing else is computed. When it returns a tree of a valid parse, no
  rule throws, and each entry point ends with what the code generator does on the tree
  it is given: its text (filtered, in \<^verbatim>\<open>rewriteRolldown\<close>) when it returns text, and
  the error it throws otherwise. No partial text is returned.
\<close>

theorem entry_points_propagate_errors:
  "(parse code = Inl e \<longrightarrow>
      rewriteRolldown parse generate code = Inl (ParseError e) \<and>
      rewriteEsbuild parse generate code = Inl (ParseError e)) \<and>
   (parse code = Inr ast \<longrightarrow>
      rewriteEsbuild parse generate code
        = map_sum GenerateError (\<lambda>generated. generated) (generate ast)) \<and>
   (parse code = Inr ast \<and> estree_ok ast \<longrightarrow>
      (\<exists>ast'. simple ast = Some ast' \<and>
         rewriteRolldown parse generate code
           = map_sum GenerateError normalize_output (generate ast'))) \<and>
   (parse code = Inr ast \<and> estree_ok ast \<longrightarrow>
      rewriteRolldown parse generate code \<noteq> Inl TypeError) \<and>
   rewriteEsbuild parse generate code \<noteq> Inl TypeError"
proof (intro conjI impI)
  assume "parse code = Inl e"
  then show "rewriteRolldown parse generate code = Inl (ParseError e)"
    and "rewriteEsbuild parse generate code = Inl (ParseError e)"
    by (simp_all add: rewriteRolldown_def rewriteEsbuild_def)
next
  assume "parse code = Inr ast"
  then show "rewriteEsbuild parse generate code
      = map_sum GenerateError (\<lambda>generated. generated) (generate ast)"
    by (rule rewriteEsbuild_Inr)
next
  assume a: "parse code = Inr ast \<and> estree_ok ast"
  then obtain ast' where "simple ast = Some ast'" using simple_total by blast
  then show "\<exists>ast'. simple ast = Some ast' \<and>
         rewriteRolldown parse generate code
           = map_sum GenerateError normalize_output (generate ast')"
    using a by (auto simp: rewriteRolldown_Inr)
next
  assume a: "parse code = Inr ast \<and> estree_ok ast"
  then obtain ast' where "simple ast = Some ast'" using simple_total by blast
  then have "rewriteRolldown parse generate code
      = map_sum GenerateError normalize_output (generate ast')"
    using a by (simp add: rewriteRolldown_Inr)
  then show "rewriteRolldown parse generate code \<noteq> Inl TypeError"
    by (cases "generate ast'") simp_all
next
  show "rewriteEsbuild parse generate code \<noteq> Inl TypeError"
    by (simp add: rewriteEsbuild_def split: sum.splits)
qed

theorem entry_points_propagate_errors_witness:
  \<open>example_parse ''import'' = Inl ''SyntaxError'' \<and>
   rewriteRolldown example_parse example_generate ''import'' = Inl (ParseError ''SyntaxError'') \<and>
   rewriteEsbuild example_parse example_generate ''import'' = Inl (ParseError ''SyntaxError'') \<and>
   example_parse example_input = Inr example_ast \<and> estree_ok example_ast \<and>
   rewriteEsbuild example_parse example_generate example_input
     = Inr ''import assert from 'assert';\<newline>'use strict';\<newline>assert.equal(compute(), 42);'' \<and>
   rewriteRolldown example_parse example_generate example_input
     = Inr '''use strict';\<newline>console.log(compute());'' \<and>
   rewriteRolldown example_parse example_generate example_input \<noteq> Inl TypeError\<close>
proof -
  have a: "example_parse ''import'' = Inl ''SyntaxError''"
    by (simp add: example_parse_def example_input_def class_field_input_def)
  have b: "example_parse example_input = Inr example_ast" by (simp add: example_parse_def)
  have g1: \<open>example_generate example_ast
      = Inr ''import assert from 'assert';\<newline>'use strict';\<newline>assert.equal(compute(), 42);''\<close>
    by (simp add: example_generate_def)
  have g2: \<open>map_sum GenerateError normalize_output (example_generate example_rewritten)
      = Inr '''use strict';\<newline>console.log(compute());''\<close>
    by (simp add: example_generate_def normalize_output_def example_ast_def
        example_rewritten_def node_defs)
  note t1 = entry_points_propagate_errors [where parse = example_parse and code = "''import''"
      and e = "''SyntaxError''" and generate = example_generate and ast = Undefined]
  note t2 = entry_points_propagate_errors [where parse = example_parse and code = example_input
      and e = "''''" and generate = example_generate and ast = example_ast]
  from t1 a have r1: "rewriteRolldown example_parse example_generate ''import'' = Inl (ParseError ''SyntaxError'')"
    and r2: "rewriteEsbuild example_parse example_generate ''import'' = Inl (ParseError ''SyntaxError'')"
    by blast+
  from t2 b estree_ok_example
  have r3: "rewriteEsbuild example_parse example_generate example_input
      = map_sum GenerateError (\<lambda>generated. generated) (example_generate example_ast)"
    and r4: "\<exists>ast'. simple example_ast = Some ast' \<and>
      rewriteRolldown example_parse example_generate example_input
        = map_sum GenerateError normalize_output (example_generate ast')"
    and r5: "rewriteRolldown example_parse example_generate example_input \<noteq> Inl TypeError"
    by blast+
  from r3 have r3': \<open>rewriteEsbuild example_parse example_generate example_input
     = Inr ''import assert from 'assert';\<newline>'use strict';\<newline>assert.equal(compute(), 42);''\<close>
    by (simp add: g1)
  from r4 have r4': \<open>rewriteRolldown example_parse example_generate example_input
     = Inr '''use strict';\<newline>console.log(compute());''\<close>
    by (auto simp: simple_example g2)
  from a r1 r2 b estree_ok_example r3' r4' r5 show ?thesis by (intro conjI)
qed

text \<open>
  On the class field the parser returns a tree and the code generator throws: both
  entry points end with the generator's error, which is neither text nor a parse error.
\<close>

theorem generator_error_on_valid_module:
  "example_parse class_field_input = Inr class_field_ast \<and>
   estree_ok class_field_ast \<and>
   simple class_field_ast = Some class_field_ast \<and>
   rewriteEsbuild example_parse example_generate class_field_input
     = Inl (GenerateError ''TypeError'') \<and>
   rewriteRolldown example_parse example_generate class_field_input
     = Inl (GenerateError ''TypeError'')"
proof -
  have p: "example_parse class_field_input = Inr class_field_ast"
    by (simp add: example_parse_def class_field_input_def example_input_def)
  have ok: "estree_ok class_field_ast"
    by (simp add: class_field_ast_def node_defs node_ok_def field_def is_Obj_def is_Arr_def)
  have s: "simple class_field_ast = Some class_field_ast"
    by (simp add: class_field_ast_def node_defs visitors_def field_def)
  have g: "example_generate class_field_ast = Inl ''TypeError''"
    by (simp add: example_generate_def class_field_ast_def example_ast_def
        example_rewritten_def node_defs)
  have "rewriteEsbuild example_parse example_generate class_field_input
      = Inl (GenerateError ''TypeError'')"
    using p g by (simp add: rewriteEsbuild_def)
  moreover have "rewriteRolldown example_parse example_generate class_field_input
      = Inl (GenerateError ''TypeError'')"
    using p s g by (simp add: rewriteRolldown_def)
  ultimately show ?thesis using p ok s by (intro conjI)
qed

section \<open>The line filter\<close>

text \<open>
  Claim C2, as the code has it. The filter drops the lines that are exactly \<^verbatim>\<open>;\<close> and
  nothing else: the lines of the result are the other lines of the generated text,
  verbatim and in order, joined by newlines; when every line is \<^verbatim>\<open>;\<close> the result is
  the empty string; a text without such a line is returned unchanged; and no line of
  the result is \<^verbatim>\<open>;\<close>.
\<close>

theorem line_filter_exact:
  "(filter (\<lambda>line. line \<noteq> '';'') (split_nl s) \<noteq> [] \<longrightarrow>
      split_nl (normalize_output s) = filter (\<lambda>line. line \<noteq> '';'') (split_nl s)) \<and>
   (filter (\<lambda>line. line \<noteq> '';'') (split_nl s) = [] \<longrightarrow> normalize_output s = []) \<and>
   ('';'' \<notin> set (split_nl s) \<longrightarrow> normalize_output s = s) \<and>
   '';'' \<notin> set (split_nl (normalize_output s))"
proof (intro conjI impI)
  assume ne: "filter (\<lambda>line. line \<noteq> '';'') (split_nl s) \<noteq> []"
  have "\<forall>l \<in> set (filter (\<lambda>line. line \<noteq> '';'') (split_nl s)). CHR ''\<newline>'' \<notin> set l"
    using split_nl_no_newline by auto
  with ne show "split_nl (normalize_output s) = filter (\<lambda>line. line \<noteq> '';'') (split_nl s)"
    unfolding normalize_output_def by (rule split_join_nl)
next
  assume "filter (\<lambda>line. line \<noteq> '';'') (split_nl s) = []"
  then show "normalize_output s = []" by (simp add: normalize_output_def)
next
  assume "'';'' \<notin> set (split_nl s)"
  then have "filter (\<lambda>line. line \<noteq> '';'') (split_nl s) = split_nl s"
    by (auto intro: filter_True)
  then show "normalize_output s = s" by (simp add: normalize_output_def join_split_nl)
next
  show "'';'' \<notin> set (split_nl (normalize_output s))"
  proof (cases "filter (\<lambda>line. line \<noteq> '';'') (split_nl s) = []")
    case True
    then show ?thesis by (simp add: normalize_output_def)
  next
    case False
    have "\<forall>l \<in> set (filter (\<lambda>line. line \<noteq> '';'') (split_nl s)). CHR ''\<newline>'' \<notin> set l"
      using split_nl_no_newline by auto
    with False have "split_nl (normalize_output s) = filter (\<lambda>line. line \<noteq> '';'') (split_nl s)"
      unfolding normalize_output_def by (rule split_join_nl)
    then show ?thesis by simp
  qed
qed

theorem line_filter_exact_witness:
  "filter (\<lambda>line. line \<noteq> '';'') (split_nl ''a;\<newline>;\<newline>\<newline>  b'') \<noteq> [] \<and>
   split_nl (normalize_output ''a;\<newline>;\<newline>\<newline>  b'') = [''a;'', [], ''  b''] \<and>
   filter (\<lambda>line. line \<noteq> '';'') (split_nl '';\<newline>;'') = [] \<and>
   normalize_output '';\<newline>;'' = [] \<and>
   '';'' \<notin> set (split_nl ''foo;'') \<and>
   normalize_output ''foo;'' = ''foo;''"
  using line_filter_exact [of "''a;\<newline>;\<newline>\<newline>  b''"] line_filter_exact [of "'';\<newline>;''"]
    line_filter_exact [of "''foo;''"]
  by simp

text \<open>
  A line of white space followed by \<^verbatim>\<open>;\<close> trims to \<^verbatim>\<open>;\<close> and yet stays, where the
  filter of the specification removes it.
\<close>

theorem indented_semicolon_line_kept:
  "spec_trim ''  ;'' = '';'' \<and>
   normalize_output ''a\<newline>  ;\<newline>b'' = ''a\<newline>  ;\<newline>b'' \<and>
   spec_normalize_output ''a\<newline>  ;\<newline>b'' = ''a\<newline>b''"
  by (simp add: normalize_output_def spec_normalize_output_def spec_trim_def is_space_def)

section \<open>The end-to-end example\<close>

text \<open>
  Claim C6, as the code has it. On the tree of the example input the import becomes an
  empty statement and the call becomes \<^verbatim>\<open>console.log(compute())\<close>, but the string
  statement \<^verbatim>\<open>"use strict"\<close> stays: it follows the import, so it is no directive. The
  result is the filtered text generated from a tree with these two statements left.
\<close>

theorem example_output:
  \<open>parse example_input = Inr example_ast \<longrightarrow>
     rewriteRolldown parse generate example_input
       = map_sum GenerateError normalize_output (generate example_rewritten) \<and>
     live_statements example_rewritten =
       [ExprStmt (Literal (Str ''use strict'') ''"use strict"''),
        ExprStmt (Call (MemberExpression (Identifier ''console'') (Identifier ''log''))
                    [Call (Identifier ''compute'') []])]\<close>
proof (intro impI conjI)
  assume "parse example_input = Inr example_ast"
  then have "rewriteRolldown parse generate example_input =
      map_sum GenerateError normalize_output (generate example_rewritten)"
    using simple_example by (rule rewriteRolldown_Inr)
  then show "rewriteRolldown parse generate example_input
      = map_sum GenerateError normalize_output (generate example_rewritten)" .
next
  show \<open>live_statements example_rewritten =
       [ExprStmt (Literal (Str ''use strict'') ''"use strict"''),
        ExprStmt (Call (MemberExpression (Identifier ''console'') (Identifier ''log''))
                    [Call (Identifier ''compute'') []])]\<close>
    by (rule live_example)
qed

theorem example_output_witness:
  \<open>example_parse example_input = Inr example_ast \<and>
   rewriteRolldown example_parse example_generate example_input
     = Inr '''use strict';\<newline>console.log(compute());''\<close>
proof -
  have p: "example_parse example_input = Inr example_ast" by (simp add: example_parse_def)
  have "map_sum GenerateError normalize_output (example_generate example_rewritten)
      = Inr '''use strict';\<newline>console.log(compute());''"
    by (simp add: example_generate_def normalize_output_def example_ast_def
        example_rewritten_def node_defs)
  with example_output [of example_parse example_generate] p show ?thesis by simp
qed

theorem example_directive_statement_kept:
  \<open>map_option live_statements (simple example_ast) =
     Some [ExprStmt (Literal (Str ''use strict'') ''"use strict"''),
           ExprStmt (Call (MemberExpression (Identifier ''console'') (Identifier ''log''))
                       [Call (Identifier ''compute'') []])] \<and>
   map_option live_statements (simple example_ast) \<noteq>
     Some [ExprStmt (Call (MemberExpression (Identifier ''console'') (Identifier ''log''))
                       [Call (Identifier ''compute'') []])]\<close>
  by (simp add: simple_example live_example)

end
